theory Spec2Isabelle
  imports Main "HOL-Library.AList" "HOL-Library.FSet" "HOL-Library.Sublist"
begin

section \<open>The dev-console painter of \<open>commands/paint.ts\<close>\<close>

text \<open>
  \<open>paint(bus, plugins)\<close> keeps a handful of closure variables, registers one listener per
  event kind on the bus and repaints the terminal after every event. The closure
  variables become the record \<open>model\<close>, each listener a function from the model and the
  payload to the next model (or to the exception the listener throws), and \<open>repaint\<close> a
  function from the model to the sequence of \<open>process.stdout.write\<close> calls it makes.

  Strings are byte strings: the three characters of the source outside ASCII are their
  UTF-8 encodings.
\<close>

subsection \<open>Strings\<close>

definition nl :: char where
  "nl = CHR 0x0A"

definition esc :: char where
  "esc = CHR 0x1B"

definition tri_down :: string where
  \<comment> \<open>U+25BC, the triangle that opens every section header\<close>
  "tri_down = [CHR 0xE2, CHR 0x96, CHR 0xBC]"

definition rsaquo :: string where
  \<comment> \<open>U+203A, between host and address in the status bar\<close>
  "rsaquo = [CHR 0xE2, CHR 0x80, CHR 0xBA]"

definition ellipsis :: string where
  \<comment> \<open>U+2026, the end of the building indicator\<close>
  "ellipsis = [CHR 0xE2, CHR 0x80, CHR 0xA6]"

text \<open>\<open>String.prototype.includes\<close>: the argument occurs somewhere in the string.\<close>

fun str_includes :: "string \<Rightarrow> string \<Rightarrow> bool" where
  "str_includes [] sub = (sub = [])"
| "str_includes (c # cs) sub = (prefix sub (c # cs) \<or> str_includes cs sub)"

text \<open>
  \<open>String.prototype.trim\<close> on byte strings: the ASCII white space and line terminators
  (tab, line feed, vertical tab, form feed, carriage return, space) are dropped at both
  ends.
\<close>

definition is_space :: "char \<Rightarrow> bool" where
  "is_space c = (c \<in> set [CHR 0x09, CHR 0x0A, CHR 0x0B, CHR 0x0C, CHR 0x0D, CHR 0x20])"

definition trim :: "string \<Rightarrow> string" where
  "trim s = rev (dropWhile is_space (rev (dropWhile is_space s)))"

text \<open>\<open>s.replace(/\n/gm, '\n  ')\<close>: every line feed is followed by two spaces.\<close>

definition indent :: "string \<Rightarrow> string" where
  "indent s = concat (map (\<lambda>c. if c = nl then [nl, CHR '' '', CHR '' ''] else [c]) s)"

text \<open>\<open>Array.prototype.join\<close>.\<close>

fun join :: "string \<Rightarrow> string list \<Rightarrow> string" where
  "join sep [] = []"
| "join sep [x] = x"
| "join sep (x # y # ys) = x @ sep @ join sep (y # ys)"

text \<open>A number in a template literal: the decimal digits of an integer.\<close>

fun digits :: "nat \<Rightarrow> string" where
  "digits n =
     (if n < 10 then [''0123456789'' ! n]
      else digits (n div 10) @ [''0123456789'' ! (n mod 10)])"

definition show_int :: "int \<Rightarrow> string" where
  "show_int i = (if i < 0 then ''-'' @ digits (nat (- i)) else digits (nat i))"

text \<open>An uninitialised variable in a template literal prints as \<open>undefined\<close>.\<close>

definition show_str :: "string option \<Rightarrow> string" where
  "show_str v = (case v of None \<Rightarrow> ''undefined'' | Some s \<Rightarrow> s)"

definition show_num :: "int option \<Rightarrow> string" where
  "show_num v = (case v of None \<Rightarrow> ''undefined'' | Some i \<Rightarrow> show_int i)"

subsection \<open>Worker states\<close>

text \<open>
  The field \<open>state\<close> is declared \<open>null | [string, string]\<close>; the listener of
  \<open>WORKER_UPDATE\<close> stores whatever the payload holds, which is \<open>undefined\<close> when the
  payload has no such field. The field \<open>error\<close> is declared \<open>null | Error\<close>: \<open>None\<close> is
  \<open>null\<close>, and an error object carries its message.
\<close>

datatype status = Undefined | Null | Label string string

datatype js_error = Error string

record WorkerState =
  ws_done :: bool
  ws_state :: status
  ws_error :: "js_error option"
  ws_output :: string

definition WORKER_BASE_STATE :: WorkerState where
  "WORKER_BASE_STATE = \<lparr>ws_done = False, ws_state = Null, ws_error = None, ws_output = []\<rparr>"

definition hideOutput :: "string \<Rightarrow> string \<Rightarrow> bool" where
  "hideOutput cmd stdout =
     (if cmd = ''svelte-check'' then str_includes stdout ''found no errors''
      else if cmd = ''tsc'' then str_includes stdout ''Found 0 errors.''
      else False)"

subsection \<open>The closure variables\<close>

text \<open>
  \<open>port\<close>, \<open>hostname\<close> and \<open>startTimeMs\<close> are declared without a value, so they are
  \<open>undefined\<close> (\<open>None\<close>) until a \<open>SERVER_START\<close> event assigns them. \<open>allWorkerStates\<close>
  is an object used as a dictionary and read back with \<open>Object.entries\<close>, in the order
  the keys were first assigned: an association list. Worker ids are taken to be ordinary
  keys (not integer-like, not a property name of \<open>Object.prototype\<close>).
  \<open>allFileBuilds\<close> is a \<open>Set\<close>.
\<close>

record model =
  port :: "int option"
  hostname :: "string option"
  protocol :: string
  startTimeMs :: "int option"
  ips :: "string list"
  consoleOutput :: "string list"
  installOutput :: string
  isInstalling :: bool
  allWorkerStates :: "(string \<times> WorkerState) list"
  allFileBuilds :: "string fset"

text \<open>The body of \<open>paint\<close> before the listeners: every plugin gets a fresh worker state.\<close>

definition paint_init :: "string list \<Rightarrow> model" where
  "paint_init plugins =
     \<lparr>port = None, hostname = None, protocol = [], startTimeMs = None, ips = [],
      consoleOutput = [], installOutput = [], isInstalling = False,
      allWorkerStates = foldl (\<lambda>al plugin. AList.update plugin WORKER_BASE_STATE al) [] plugins,
      allFileBuilds = {||}\<rparr>"

definition setupWorker :: "model \<Rightarrow> string \<Rightarrow> model" where
  "setupWorker m ident =
     (case map_of (allWorkerStates m) ident of
        None \<Rightarrow> m\<lparr>allWorkerStates := AList.update ident WORKER_BASE_STATE (allWorkerStates m)\<rparr>
      | Some _ \<Rightarrow> m)"

subsection \<open>Events\<close>

text \<open>
  The payloads are untyped in the source. A \<open>WORKER_UPDATE\<close> payload without \<open>state\<close>
  carries \<open>Undefined\<close>; a \<open>SERVER_START\<close> payload without \<open>startTimeMs\<close> carries \<open>None\<close>.
\<close>

record server_info =
  info_startTimeMs :: "int option"
  info_hostname :: string
  info_port :: int
  info_protocol :: string
  info_ips :: "string list"

datatype event =
    BUILD_FILE string bool
  | WORKER_MSG string string
  | WORKER_UPDATE string status
  | WORKER_COMPLETE string "js_error option"
  | WORKER_RESET string
  | INFO string
  | WARN string
  | ERROR string
  | SERVER_START server_info

text \<open>
  Writing a field of \<open>allWorkerStates[id]\<close> throws a \<open>TypeError\<close> when the dictionary has
  no entry for \<open>id\<close>; nothing has been changed at that point.
\<close>

datatype exn = TypeError

definition set_field :: "string \<Rightarrow> (WorkerState \<Rightarrow> WorkerState) \<Rightarrow> model \<Rightarrow> exn + model" where
  "set_field ident f m =
     (case map_of (allWorkerStates m) ident of
        None \<Rightarrow> Inl TypeError
      | Some ws \<Rightarrow> Inr (m\<lparr>allWorkerStates := AList.update ident (f ws) (allWorkerStates m)\<rparr>))"

definition and_then :: "exn + model \<Rightarrow> (model \<Rightarrow> exn + model) \<Rightarrow> exn + model" where
  "and_then r f = (case r of Inl e \<Rightarrow> Inl e | Inr m \<Rightarrow> f m)"

text \<open>
  The guard of the \<open>WORKER_UPDATE\<close> listener compares the result of \<open>typeof\<close>, a string,
  with the value \<open>undefined\<close> by \<open>!==\<close>.
\<close>

datatype js_prim = PUndefined | PString string

fun typeof :: "status \<Rightarrow> string" where
  "typeof Undefined = ''undefined''"
| "typeof Null = ''object''"
| "typeof (Label l c) = ''object''"

text \<open>\<open>a || b\<close> on the error field: an error object is truthy, \<open>null\<close> is not.\<close>

definition or_error :: "js_error option \<Rightarrow> js_error option \<Rightarrow> js_error option" where
  "or_error a b = (case a of Some e \<Rightarrow> Some e | None \<Rightarrow> b)"

text \<open>
  The listeners, without their final \<open>repaint()\<close>. \<open>rel\<close> is \<open>path.relative(cwd, _)\<close> of
  the Node library, for the working directory of the process.
\<close>

fun handle :: "(string \<Rightarrow> string) \<Rightarrow> model \<Rightarrow> event \<Rightarrow> exn + model" where
  "handle rel m (BUILD_FILE ident isBuilding) =
     (if isBuilding then Inr (m\<lparr>allFileBuilds := finsert (rel ident) (allFileBuilds m)\<rparr>)
      else Inr (m\<lparr>allFileBuilds := allFileBuilds m |-| {|rel ident|}\<rparr>))"
| "handle rel m (WORKER_MSG ident msg) =
     set_field ident (\<lambda>ws. ws\<lparr>ws_output := ws_output ws @ msg\<rparr>) (setupWorker m ident)"
| "handle rel m (WORKER_UPDATE ident st) =
     (if PString (typeof st) \<noteq> PUndefined
      then set_field ident (\<lambda>ws. ws\<lparr>ws_state := st\<rparr>) (setupWorker m ident)
      else Inr m)"
| "handle rel m (WORKER_COMPLETE ident err) =
     and_then (and_then
       (set_field ident (\<lambda>ws. ws\<lparr>ws_state := Label ''DONE'' ''green''\<rparr>) m)
       (set_field ident (\<lambda>ws. ws\<lparr>ws_done := True\<rparr>)))
       (set_field ident (\<lambda>ws. ws\<lparr>ws_error := or_error (ws_error ws) err\<rparr>))"
| "handle rel m (WORKER_RESET ident) =
     Inr (m\<lparr>allWorkerStates := AList.update ident WORKER_BASE_STATE (allWorkerStates m)\<rparr>)"
| "handle rel m (INFO args) = Inr (m\<lparr>consoleOutput := consoleOutput m @ [args]\<rparr>)"
| "handle rel m (WARN args) = Inr (m\<lparr>consoleOutput := consoleOutput m @ [args]\<rparr>)"
| "handle rel m (ERROR args) = Inr (m\<lparr>consoleOutput := consoleOutput m @ [args]\<rparr>)"
| "handle rel m (SERVER_START info) =
     Inr (m\<lparr>startTimeMs := info_startTimeMs info, hostname := Some (info_hostname info),
            port := Some (info_port info), protocol := info_protocol info,
            ips := info_ips info\<rparr>)"

subsection \<open>Rendering\<close>

text \<open>
  The colour functions of \<open>kleur/colors\<close> are not part of the repository: a call
  \<open>colors.red(t)\<close> is kept as the term \<open>Colors Red t\<close>. One \<open>process.stdout.write\<close> of a
  template literal is a \<open>chunk\<close>, the parts of the literal in order.
\<close>

datatype colour = Bold | Underline | Red | Reset | Dim | BgBlue | White | BgGreen | Black | BgYellow

datatype styled = Plain string | Colors colour styled

type_synonym chunk = "styled list"

definition clear_page :: "bool \<Rightarrow> string" where
  "clear_page win32 =
     (if win32 then [esc] @ ''[2J'' @ [esc] @ ''[0f''
      else [esc] @ ''[2J'' @ [esc] @ ''[3J'' @ [esc] @ ''[H'')"

definition console_section :: "model \<Rightarrow> chunk list" where
  "console_section m =
     (if length (consoleOutput m) \<noteq> 0
      then [[Colors Underline (Colors Bold (Plain (tri_down @ '' Console''))), Plain [nl, nl]],
            [Plain (join ([nl] @ ''  '') (consoleOutput m))],
            [Plain [nl, nl]]]
      else [])"

definition displayName :: "string \<Rightarrow> string option" where
  "displayName script = (if script = ''tsc'' then Some ''TypeScript'' else None)"

text \<open>
  \<open>'\<dots> ' + displayName[script] || script\<close>: the sum binds tighter than \<open>||\<close>, and a missing
  entry is concatenated as \<open>undefined\<close>.
\<close>

definition header_label :: "string \<Rightarrow> string" where
  "header_label script =
     (let s = tri_down @ '' '' @ show_str (displayName script)
      in if s \<noteq> [] then s else script)"

text \<open>\<open>Array.isArray\<close> on the error field: neither \<open>null\<close> nor an error object is an array.\<close>

fun isArray :: "js_error option \<Rightarrow> bool" where
  "isArray None = False"
| "isArray (Some (Error msg)) = False"

definition colorsFn :: "js_error option \<Rightarrow> styled \<Rightarrow> styled" where
  "colorsFn err = (if isArray err then Colors Red else Colors Reset)"

fun worker_section :: "string \<times> WorkerState \<Rightarrow> chunk list" where
  "worker_section (script, workerState) =
     (if ws_output workerState \<noteq> [] \<and> \<not> hideOutput script (ws_output workerState)
      then [[colorsFn (ws_error workerState)
               (Colors Underline (Colors Bold (Plain (header_label script)))),
             Plain [nl, nl]],
            [Plain (indent (trim (ws_output workerState)))],
            [Plain [nl, nl]]]
      else [])"

text \<open>\<open>undefined > 0\<close> is false.\<close>

definition positive :: "int option \<Rightarrow> bool" where
  "positive v = (case v of None \<Rightarrow> False | Some i \<Rightarrow> 0 < i)"

definition isServerStarted :: "model \<Rightarrow> bool" where
  "isServerStarted m = (positive (startTimeMs m) \<and> positive (port m) \<and> protocol m \<noteq> [])"

definition snowpack_badge :: styled where
  "snowpack_badge = Colors BgBlue (Colors White (Plain '' SNOWPACK ''))"

definition first_ip :: "string list \<Rightarrow> string" where
  "first_ip xs = (case xs of [] \<Rightarrow> ''undefined'' | ip # _ \<Rightarrow> ip)"

definition status_bar :: "model \<Rightarrow> chunk list" where
  "status_bar m =
     (if isServerStarted m
      then (if allFileBuilds m \<noteq> {||} then [[Colors Dim (Plain ('' Building'' @ ellipsis))]] else [])
           @ [[snowpack_badge, Colors BgGreen (Colors Black (Plain '' READY '')),
               Plain ('' '' @ show_str (hostname m) @ '':'' @ show_num (port m)
                      @ '' '' @ rsaquo @ '' '' @ first_ip (ips m))]]
      else [[snowpack_badge, Colors BgYellow (Colors Black (Plain '' LOADING ''))]])"

definition install_section :: "model \<Rightarrow> chunk list" where
  "install_section m =
     (if isInstalling m
      then [[Colors Underline (Colors Bold (Plain (tri_down @ '' snowpack install''))),
             Plain [nl, nl]],
            [Plain (''  '' @ indent (trim (installOutput m)))],
            [Plain [nl, nl]]]
      else [])"

definition repaint :: "bool \<Rightarrow> model \<Rightarrow> chunk list" where
  "repaint win32 m =
     [[Plain (clear_page win32)]] @ console_section m
     @ concat (map worker_section (allWorkerStates m))
     @ status_bar m @ install_section m"

subsection \<open>One event, many events\<close>

text \<open>
  A listener changes the variables and repaints; a listener that throws has changed
  nothing and paints nothing. \<open>after\<close> is the model a listener leaves behind either way,
  \<open>after_all\<close> the model after a sequence of events.
\<close>

definition emit :: "bool \<Rightarrow> (string \<Rightarrow> string) \<Rightarrow> model \<Rightarrow> event \<Rightarrow> exn + model \<times> chunk list" where
  "emit win32 rel m e =
     (case handle rel m e of Inl x \<Rightarrow> Inl x | Inr m' \<Rightarrow> Inr (m', repaint win32 m'))"

definition after :: "(string \<Rightarrow> string) \<Rightarrow> model \<Rightarrow> event \<Rightarrow> model" where
  "after rel m e = (case handle rel m e of Inl x \<Rightarrow> m | Inr m' \<Rightarrow> m')"

definition after_all :: "(string \<Rightarrow> string) \<Rightarrow> model \<Rightarrow> event list \<Rightarrow> model" where
  "after_all rel m es = foldl (after rel) m es"

section \<open>Facts about the listeners\<close>

subsection \<open>The worker dictionary\<close>

lemma set_update_subset: "set (AList.update k v al) \<subseteq> insert (k, v) (set al)"
  by (induction al) auto

lemma map_of_setupWorker:
  "map_of (allWorkerStates (setupWorker m ident)) ident =
     Some (case map_of (allWorkerStates m) ident of None \<Rightarrow> WORKER_BASE_STATE | Some ws \<Rightarrow> ws)"
  by (simp add: setupWorker_def AList.update_conv' split: option.splits)

lemma set_field_known:
  "map_of (allWorkerStates m) ident = Some ws \<Longrightarrow>
   set_field ident f m = Inr (m\<lparr>allWorkerStates := AList.update ident (f ws) (allWorkerStates m)\<rparr>)"
  by (simp add: set_field_def)

lemma set_field_unknown:
  "map_of (allWorkerStates m) ident = None \<Longrightarrow> set_field ident f m = Inl TypeError"
  by (simp add: set_field_def)

text \<open>
  The three assignments of the \<open>WORKER_COMPLETE\<close> listener, when the worker is known, and
  the exception of the first one when it is not.
\<close>

lemma handle_complete_known:
  assumes "map_of (allWorkerStates m) w = Some ws"
  shows "handle rel m (WORKER_COMPLETE w err) =
     Inr (m\<lparr>allWorkerStates := AList.update w
        (ws\<lparr>ws_state := Label ''DONE'' ''green'', ws_done := True,
            ws_error := or_error (ws_error ws) err\<rparr>) (allWorkerStates m)\<rparr>)"
  using assms by (simp add: set_field_def and_then_def AList.update_conv')

lemma handle_complete_unknown:
  assumes "map_of (allWorkerStates m) w = None"
  shows "handle rel m (WORKER_COMPLETE w err) = Inl TypeError"
  using assms by (simp add: set_field_def and_then_def)

text \<open>
  After \<open>setupWorker\<close> the assignment of \<open>WORKER_MSG\<close> and \<open>WORKER_UPDATE\<close> cannot throw:
  both listeners always return.
\<close>

lemma handle_msg:
  "handle rel m (WORKER_MSG w msg) =
     Inr (m\<lparr>allWorkerStates := AList.update w
        ((case map_of (allWorkerStates m) w of None \<Rightarrow> WORKER_BASE_STATE | Some ws \<Rightarrow> ws)
           \<lparr>ws_output := ws_output (case map_of (allWorkerStates m) w of
               None \<Rightarrow> WORKER_BASE_STATE | Some ws \<Rightarrow> ws) @ msg\<rparr>)
        (allWorkerStates m)\<rparr>)"
  by (simp add: set_field_def setupWorker_def AList.update_conv' split: option.splits)

lemma handle_update:
  "handle rel m (WORKER_UPDATE w st) =
     Inr (m\<lparr>allWorkerStates := AList.update w
        ((case map_of (allWorkerStates m) w of None \<Rightarrow> WORKER_BASE_STATE | Some ws \<Rightarrow> ws)
           \<lparr>ws_state := st\<rparr>)
        (allWorkerStates m)\<rparr>)"
  by (simp add: set_field_def setupWorker_def AList.update_conv' split: option.splits)

lemma handle_throws_only_on_complete:
  assumes "handle rel m e = Inl x"
  shows "\<exists>w err. e = WORKER_COMPLETE w err \<and> map_of (allWorkerStates m) w = None"
proof (cases e)
  case (WORKER_COMPLETE w err)
  show ?thesis
  proof (cases "map_of (allWorkerStates m) w")
    case None
    with WORKER_COMPLETE show ?thesis by simp
  next
    case (Some ws)
    with assms WORKER_COMPLETE show ?thesis
      by (simp add: handle_complete_known del: handle.simps)
  qed
next
  case (WORKER_MSG w msg)
  with assms show ?thesis by (simp add: handle_msg del: handle.simps)
next
  case (WORKER_UPDATE w st)
  with assms show ?thesis by (simp add: handle_update del: handle.simps)
qed (insert assms, auto split: if_splits)

lemma first_error_wins:
  assumes "map_of (allWorkerStates m) w = Some ws" and "ws_error ws = Some e"
  shows "map_option ws_error (map_of (allWorkerStates (after rel m (WORKER_COMPLETE w err))) w)
           = Some (Some e)"
  using assms
  by (simp add: after_def handle_complete_known AList.update_conv' or_error_def del: handle.simps)

subsection \<open>What no listener touches\<close>

lemma handle_frame:
  assumes "handle rel m e = Inr m'"
  shows "isInstalling m' = isInstalling m \<and> installOutput m' = installOutput m
         \<and> prefix (consoleOutput m) (consoleOutput m')"
proof (cases e)
  case (WORKER_COMPLETE w err)
  show ?thesis
  proof (cases "map_of (allWorkerStates m) w")
    case None
    with assms WORKER_COMPLETE show ?thesis
      by (simp add: handle_complete_unknown del: handle.simps)
  next
    case (Some ws)
    with assms WORKER_COMPLETE show ?thesis
      by (auto simp: handle_complete_known simp del: handle.simps)
  qed
next
  case (WORKER_MSG w msg)
  with assms show ?thesis by (auto simp: handle_msg simp del: handle.simps)
next
  case (WORKER_UPDATE w st)
  with assms show ?thesis by (auto simp: handle_update simp del: handle.simps)
qed (insert assms, auto split: if_splits)

lemma after_frame:
  "isInstalling (after rel m e) = isInstalling m
   \<and> installOutput (after rel m e) = installOutput m
   \<and> prefix (consoleOutput m) (consoleOutput (after rel m e))"
  using handle_frame [of rel m e] by (cases "handle rel m e") (auto simp: after_def)

lemma after_all_frame:
  "isInstalling (after_all rel m es) = isInstalling m
   \<and> installOutput (after_all rel m es) = installOutput m
   \<and> prefix (consoleOutput m) (consoleOutput (after_all rel m es))"
proof (induction es arbitrary: m)
  case Nil
  show ?case by (simp add: after_all_def)
next
  case (Cons e es)
  have step: "after_all rel m (e # es) = after_all rel (after rel m e) es"
    by (simp add: after_all_def)
  from Cons [of "after rel m e"] after_frame [of rel m e] show ?case
    unfolding step by (auto intro: prefix_order.trans)
qed

subsection \<open>The initial model paints no worker\<close>

lemma init_workers_base:
  "\<forall>p \<in> set (foldl (\<lambda>al plugin. AList.update plugin WORKER_BASE_STATE al) al0 plugins).
     p \<in> set al0 \<or> snd p = WORKER_BASE_STATE"
proof (induction plugins arbitrary: al0)
  case Nil
  show ?case by simp
next
  case (Cons a plugins)
  show ?case
    using Cons [of "AList.update a WORKER_BASE_STATE al0"]
      set_update_subset [of a WORKER_BASE_STATE al0]
    by fastforce
qed

lemma paint_init_workers:
  "p \<in> set (allWorkerStates (paint_init plugins)) \<Longrightarrow> snd p = WORKER_BASE_STATE"
  using init_workers_base [of "[]" plugins] by (auto simp: paint_init_def)

lemma worker_section_base: "worker_section (k, WORKER_BASE_STATE) = []"
  by (simp add: WORKER_BASE_STATE_def)

lemma sections_empty:
  "(\<And>p. p \<in> set al \<Longrightarrow> worker_section p = []) \<Longrightarrow> concat (map worker_section al) = []"
  by (induction al) auto

lemma paint_init_sections:
  "concat (map worker_section (allWorkerStates (paint_init plugins))) = []"
proof (rule sections_empty)
  fix p assume "p \<in> set (allWorkerStates (paint_init plugins))"
  then have "snd p = WORKER_BASE_STATE" by (rule paint_init_workers)
  then show "worker_section p = []" using worker_section_base [of "fst p"] by (cases p) simp
qed

lemma tsc_hidden:
  "worker_section (''tsc'', WORKER_BASE_STATE\<lparr>ws_output := ''Found 0 errors.''\<rparr>) = []"
  by (simp add: hideOutput_def)

text \<open>The header colour does not depend on the error field.\<close>

lemma colorsFn_reset: "colorsFn err = Colors Reset"
proof (cases err)
  case None
  then show ?thesis by (simp add: colorsFn_def)
next
  case (Some e)
  then show ?thesis by (cases e) (simp add: colorsFn_def)
qed

section \<open>The claims\<close>

text \<open>
  C1. A \<open>WORKER_UPDATE\<close> event whose payload has no \<open>state\<close> should leave the stored state
  of the worker as it is. The guard of the listener, \<open>typeof state !== undefined\<close>,
  compares a string with \<open>undefined\<close> and always holds, so the listener stores
  \<open>undefined\<close>: a worker \<open>tsc\<close> that has completed, with state \<open>["DONE", "green"]\<close>,
  loses that state when the event \<open>{id: "tsc"}\<close> arrives.
\<close>

theorem worker_update_without_state_overwrites:
  "after_all id (paint_init [''tsc'']) [WORKER_COMPLETE ''tsc'' None] =
     paint_init [''tsc'']\<lparr>allWorkerStates :=
       [(''tsc'', \<lparr>ws_done = True, ws_state = Label ''DONE'' ''green'',
                  ws_error = None, ws_output = []\<rparr>)]\<rparr>
   \<and> handle id
       (paint_init [''tsc'']\<lparr>allWorkerStates :=
         [(''tsc'', \<lparr>ws_done = True, ws_state = Label ''DONE'' ''green'',
                    ws_error = None, ws_output = []\<rparr>)]\<rparr>)
       (WORKER_UPDATE ''tsc'' Undefined) =
     Inr (paint_init [''tsc'']\<lparr>allWorkerStates :=
       [(''tsc'', \<lparr>ws_done = True, ws_state = Undefined,
                  ws_error = None, ws_output = []\<rparr>)]\<rparr>)"
  by (simp add: after_all_def after_def paint_init_def set_field_def and_then_def
      setupWorker_def WORKER_BASE_STATE_def or_error_def)

text \<open>
  C2. A \<open>WORKER_COMPLETE\<close> event for a worker without a record should create the record.
  The listener does not call \<open>setupWorker\<close>, as the listeners of \<open>WORKER_MSG\<close> and
  \<open>WORKER_UPDATE\<close> do: with no plugins, the event \<open>{id: "tsc", error: null}\<close> throws a
  \<open>TypeError\<close>, nothing is painted and no record exists afterwards.
\<close>

theorem worker_complete_unknown_id_throws:
  "handle id (paint_init []) (WORKER_COMPLETE ''tsc'' None) = Inl TypeError
   \<and> emit False id (paint_init []) (WORKER_COMPLETE ''tsc'' None) = Inl TypeError
   \<and> map_of (allWorkerStates (after id (paint_init []) (WORKER_COMPLETE ''tsc'' None))) ''tsc''
       = None"
  by (simp add: emit_def after_def paint_init_def set_field_def and_then_def)

text \<open>
  C3. Sticky error: when the record of worker \<open>w\<close> holds an error \<open>e\<close>, a
  \<open>WORKER_COMPLETE\<close> event for \<open>w\<close> with \<open>error = null\<close> returns and leaves \<open>e\<close> in the
  record, and so does any number of such events in a row.
\<close>

theorem sticky_error:
  assumes "map_of (allWorkerStates m) w = Some ws" and "ws_error ws = Some e"
  shows "(\<exists>m' ws'. handle rel m (WORKER_COMPLETE w None) = Inr m'
            \<and> map_of (allWorkerStates m') w = Some ws' \<and> ws_error ws' = Some e)
       \<and> (\<exists>ws'. map_of (allWorkerStates
                    (after_all rel m (replicate n (WORKER_COMPLETE w None)))) w = Some ws'
            \<and> ws_error ws' = Some e)"
proof
  show "\<exists>m' ws'. handle rel m (WORKER_COMPLETE w None) = Inr m'
            \<and> map_of (allWorkerStates m') w = Some ws' \<and> ws_error ws' = Some e"
    using assms
    by (simp add: handle_complete_known AList.update_conv' or_error_def del: handle.simps)
next
  from assms show "\<exists>ws'. map_of (allWorkerStates
                    (after_all rel m (replicate n (WORKER_COMPLETE w None)))) w = Some ws'
            \<and> ws_error ws' = Some e"
  proof (induction n arbitrary: m ws)
    case 0
    then show ?case by (simp add: after_all_def)
  next
    case (Suc n)
    let ?ws = "ws\<lparr>ws_state := Label ''DONE'' ''green'', ws_done := True,
            ws_error := or_error (ws_error ws) None\<rparr>"
    let ?m = "m\<lparr>allWorkerStates := AList.update w ?ws (allWorkerStates m)\<rparr>"
    have a: "after rel m (WORKER_COMPLETE w None) = ?m"
      using Suc.prems(1) by (simp add: after_def handle_complete_known del: handle.simps)
    have "map_of (allWorkerStates ?m) w = Some ?ws" by (simp add: AList.update_conv')
    moreover have "ws_error ?ws = Some e" using Suc.prems(2) by (simp add: or_error_def)
    ultimately have "\<exists>ws'. map_of (allWorkerStates
                    (after_all rel ?m (replicate n (WORKER_COMPLETE w None)))) w = Some ws'
            \<and> ws_error ws' = Some e" by (rule Suc.IH)
    then show ?case by (simp add: after_all_def a)
  qed
qed

text \<open>
  The theorem at the worker \<open>tsc\<close>, completed with the error \<open>boom\<close>, and two further
  completions without an error.
\<close>

theorem sticky_error_witness:
  "map_of (allWorkerStates (paint_init []\<lparr>allWorkerStates :=
       [(''tsc'', \<lparr>ws_done = True, ws_state = Label ''DONE'' ''green'',
                  ws_error = Some (Error ''boom''), ws_output = []\<rparr>)]\<rparr>)) ''tsc''
     = Some \<lparr>ws_done = True, ws_state = Label ''DONE'' ''green'',
             ws_error = Some (Error ''boom''), ws_output = []\<rparr>
   \<and> (\<exists>ws'. map_of (allWorkerStates (after_all id (paint_init []\<lparr>allWorkerStates :=
       [(''tsc'', \<lparr>ws_done = True, ws_state = Label ''DONE'' ''green'',
                  ws_error = Some (Error ''boom''), ws_output = []\<rparr>)]\<rparr>)
         (replicate 2 (WORKER_COMPLETE ''tsc'' None)))) ''tsc'' = Some ws'
       \<and> ws_error ws' = Some (Error ''boom''))"
  using sticky_error [of "paint_init []\<lparr>allWorkerStates :=
       [(''tsc'', \<lparr>ws_done = True, ws_state = Label ''DONE'' ''green'',
                  ws_error = Some (Error ''boom''), ws_output = []\<rparr>)]\<rparr>"
      "''tsc''"
      "\<lparr>ws_done = True, ws_state = Label ''DONE'' ''green'',
        ws_error = Some (Error ''boom''), ws_output = []\<rparr>"
      "Error ''boom''" id 2]
  by simp

text \<open>
  C4, as stated: the event \<open>SERVER_START {port: 8080, hostname: "localhost",
  protocol: "http://", ips: ["192.168.1.5"]}\<close> has no \<open>startTimeMs\<close>. The status bar tests
  \<open>startTimeMs > 0\<close> first, so from the initial model this event paints the loading
  badge and no ready badge.
\<close>

theorem server_start_without_time_loading:
  "emit False id (paint_init [])
     (SERVER_START \<lparr>info_startTimeMs = None, info_hostname = ''localhost'', info_port = 8080,
        info_protocol = ''http://'', info_ips = [''192.168.1.5'']\<rparr>) =
   Inr (paint_init []\<lparr>startTimeMs := None, hostname := Some ''localhost'', port := Some 8080,
          protocol := ''http://'', ips := [''192.168.1.5'']\<rparr>,
        [[Plain (clear_page False)],
         [snowpack_badge, Colors BgYellow (Colors Black (Plain '' LOADING ''))]])
   \<and> Colors BgGreen (Colors Black (Plain '' READY '')) \<notin>
       set (concat (repaint False (after id (paint_init [])
         (SERVER_START \<lparr>info_startTimeMs = None, info_hostname = ''localhost'',
            info_port = 8080, info_protocol = ''http://'',
            info_ips = [''192.168.1.5'']\<rparr>))))"
  by (simp add: emit_def after_def repaint_def paint_init_def console_section_def
      status_bar_def install_section_def isServerStarted_def positive_def
      snowpack_badge_def)

text \<open>
  C4, amended: when the event also carries a positive \<open>startTimeMs\<close>, then from the
  initial model (any plugins, empty build set) it paints, after clearing the page, one
  line: the ready badge and \<open>localhost:8080\<close>, U+203A, \<open>192.168.1.5\<close>, with no building indicator
  and no loading badge.
\<close>

theorem server_start_ready:
  assumes "0 < t"
  shows "emit win32 rel (paint_init plugins)
     (SERVER_START \<lparr>info_startTimeMs = Some t, info_hostname = ''localhost'', info_port = 8080,
        info_protocol = ''http://'', info_ips = [''192.168.1.5'']\<rparr>) =
   Inr (paint_init plugins\<lparr>startTimeMs := Some t, hostname := Some ''localhost'',
          port := Some 8080, protocol := ''http://'', ips := [''192.168.1.5'']\<rparr>,
        [[Plain (clear_page win32)],
         [snowpack_badge, Colors BgGreen (Colors Black (Plain '' READY '')),
          Plain ('' localhost:8080 '' @ rsaquo @ '' 192.168.1.5'')]])"
proof -
  have "concat (map worker_section (allWorkerStates (paint_init plugins))) = []"
    by (rule paint_init_sections)
  moreover have "consoleOutput (paint_init plugins) = []" "\<not> isInstalling (paint_init plugins)"
    "allFileBuilds (paint_init plugins) = {||}"
    by (simp_all add: paint_init_def)
  moreover have "show_int 8080 = ''8080''" by (simp add: show_int_def)
  ultimately show ?thesis using assms
    by (simp add: emit_def repaint_def console_section_def status_bar_def
      install_section_def isServerStarted_def positive_def show_str_def show_num_def
      first_ip_def)
qed

theorem server_start_ready_witness:
  "(0::int) < 1604361600000 \<and> emit False id (paint_init [])
     (SERVER_START \<lparr>info_startTimeMs = Some 1604361600000, info_hostname = ''localhost'',
        info_port = 8080, info_protocol = ''http://'', info_ips = [''192.168.1.5'']\<rparr>) =
   Inr (paint_init []\<lparr>startTimeMs := Some 1604361600000, hostname := Some ''localhost'',
          port := Some 8080, protocol := ''http://'', ips := [''192.168.1.5'']\<rparr>,
        [[Plain (clear_page False)],
         [snowpack_badge, Colors BgGreen (Colors Black (Plain '' READY '')),
          Plain ('' localhost:8080 '' @ rsaquo @ '' 192.168.1.5'')]])"
  using server_start_ready [of 1604361600000 False id "[]"] by simp

text \<open>
  C5. The header of a painted worker section should be red exactly when the worker has
  an error. The listener picks the colour by \<open>Array.isArray(workerState.error)\<close>, which
  no value of the declared type \<open>null | Error\<close> satisfies: a worker \<open>lint\<close> that printed
  \<open>oops\<close> and completed with the error \<open>boom\<close> gets a header in \<open>colors.reset\<close>.
\<close>

theorem header_with_error_not_red:
  "after_all id (paint_init [])
      [WORKER_MSG ''lint'' ''oops'', WORKER_COMPLETE ''lint'' (Some (Error ''boom''))] =
     paint_init []\<lparr>allWorkerStates :=
       [(''lint'', \<lparr>ws_done = True, ws_state = Label ''DONE'' ''green'',
                   ws_error = Some (Error ''boom''), ws_output = ''oops''\<rparr>)]\<rparr>
   \<and> worker_section (''lint'', \<lparr>ws_done = True, ws_state = Label ''DONE'' ''green'',
                   ws_error = Some (Error ''boom''), ws_output = ''oops''\<rparr>) =
     [[Colors Reset (Colors Underline (Colors Bold (Plain (tri_down @ '' undefined'')))),
       Plain [nl, nl]],
      [Plain ''oops''], [Plain [nl, nl]]]"
  by (simp add: after_all_def after_def paint_init_def set_field_def and_then_def
      setupWorker_def WORKER_BASE_STATE_def or_error_def colorsFn_def hideOutput_def
      header_label_def displayName_def show_str_def trim_def is_space_def indent_def nl_def)

text \<open>
  C6. For every worker id and every model, the \<open>WORKER_RESET\<close> listener returns, and the
  record of the worker is then the base state: not done, state \<open>null\<close>, error \<open>null\<close>,
  empty output.
\<close>

theorem worker_reset_base_state:
  "handle rel m (WORKER_RESET w) =
     Inr (m\<lparr>allWorkerStates := AList.update w WORKER_BASE_STATE (allWorkerStates m)\<rparr>)
   \<and> map_of (allWorkerStates (after rel m (WORKER_RESET w))) w =
       Some \<lparr>ws_done = False, ws_state = Null, ws_error = None, ws_output = []\<rparr>"
  by (simp add: after_def AList.update_conv' WORKER_BASE_STATE_def)

text \<open>
  C7. Build set idempotence: the second of two \<open>BUILD_FILE\<close> events for the same path with
  \<open>isBuilding = true\<close> changes nothing, and the set then holds the path exactly once; a
  \<open>BUILD_FILE\<close> event with \<open>isBuilding = false\<close> for a path that is not in the set leaves
  the model as it is.
\<close>

theorem build_set_idempotent:
  "handle rel m (BUILD_FILE p True) =
     Inr (m\<lparr>allFileBuilds := finsert (rel p) (allFileBuilds m)\<rparr>)
   \<and> handle rel (m\<lparr>allFileBuilds := finsert (rel p) (allFileBuilds m)\<rparr>) (BUILD_FILE p True) =
       Inr (m\<lparr>allFileBuilds := finsert (rel p) (allFileBuilds m)\<rparr>)
   \<and> after_all rel m [BUILD_FILE p True, BUILD_FILE p True] = after_all rel m [BUILD_FILE p True]
   \<and> fcard (ffilter (\<lambda>q. q = rel p)
        (allFileBuilds (after_all rel m [BUILD_FILE p True, BUILD_FILE p True]))) = 1
   \<and> (rel p |\<notin>| allFileBuilds m \<longrightarrow> handle rel m (BUILD_FILE p False) = Inr m)"
proof -
  have "ffilter (\<lambda>q. q = rel p) (finsert (rel p) (allFileBuilds m)) = {|rel p|}"
    by auto
  then have "fcard (ffilter (\<lambda>q. q = rel p) (finsert (rel p) (allFileBuilds m))) = 1"
    by (simp add: fcard_finsert_if)
  then show ?thesis by (simp add: after_all_def after_def)
qed

text \<open>The theorem at a build set that holds \<open>a.js\<close>, and a stop event for \<open>b.js\<close>.\<close>

theorem build_set_idempotent_witness:
  "''b.js'' |\<notin>| allFileBuilds (paint_init [] \<lparr>allFileBuilds := {|''a.js''|}\<rparr>)
   \<and> handle id (paint_init [] \<lparr>allFileBuilds := {|''a.js''|}\<rparr>) (BUILD_FILE ''b.js'' False)
       = Inr (paint_init [] \<lparr>allFileBuilds := {|''a.js''|}\<rparr>)"
  using build_set_idempotent [of id "paint_init [] \<lparr>allFileBuilds := {|''a.js''|}\<rparr>" "''b.js''"]
  by (simp add: paint_init_def after_all_def after_def)

text \<open>
  C8. From the initial model (any plugins), the event \<open>WORKER_MSG {id: "tsc", msg: "Found 0
  errors."}\<close> leaves the output of \<open>tsc\<close> non-empty, and the repaint that follows writes
  no worker section at all: the page is cleared and the loading badge is drawn.
\<close>

theorem tsc_zero_errors_suppressed:
  "emit win32 rel (paint_init plugins) (WORKER_MSG ''tsc'' ''Found 0 errors.'') =
     Inr (after rel (paint_init plugins) (WORKER_MSG ''tsc'' ''Found 0 errors.''),
          [[Plain (clear_page win32)],
           [snowpack_badge, Colors BgYellow (Colors Black (Plain '' LOADING ''))]])
   \<and> map_of (allWorkerStates
         (after rel (paint_init plugins) (WORKER_MSG ''tsc'' ''Found 0 errors.''))) ''tsc''
       = Some (WORKER_BASE_STATE\<lparr>ws_output := ''Found 0 errors.''\<rparr>)
   \<and> ws_output (WORKER_BASE_STATE\<lparr>ws_output := ''Found 0 errors.''\<rparr>) \<noteq> []
   \<and> worker_section (''tsc'', WORKER_BASE_STATE\<lparr>ws_output := ''Found 0 errors.''\<rparr>) = []"
proof -
  let ?m = "paint_init plugins"
  let ?ws = "WORKER_BASE_STATE\<lparr>ws_output := ''Found 0 errors.''\<rparr>"
  let ?m' = "?m\<lparr>allWorkerStates := AList.update ''tsc'' ?ws (allWorkerStates ?m)\<rparr>"
  have old: "(case map_of (allWorkerStates ?m) ''tsc'' of
               None \<Rightarrow> WORKER_BASE_STATE | Some ws \<Rightarrow> ws) = WORKER_BASE_STATE"
  proof (cases "map_of (allWorkerStates ?m) ''tsc''")
    case None
    then show ?thesis by simp
  next
    case (Some ws)
    then have "(''tsc'', ws) \<in> set (allWorkerStates ?m)" by (rule map_of_SomeD)
    then have "ws = WORKER_BASE_STATE" using paint_init_workers by fastforce
    with Some show ?thesis by simp
  qed
  have h: "handle rel ?m (WORKER_MSG ''tsc'' ''Found 0 errors.'') = Inr ?m'"
    unfolding handle_msg old by (simp add: WORKER_BASE_STATE_def)
  then have a: "after rel ?m (WORKER_MSG ''tsc'' ''Found 0 errors.'') = ?m'"
    by (simp add: after_def del: handle.simps)
  have "concat (map worker_section (allWorkerStates ?m')) = []"
  proof (rule sections_empty)
    fix p assume "p \<in> set (allWorkerStates ?m')"
    then have "p = (''tsc'', ?ws) \<or> p \<in> set (allWorkerStates ?m)"
      using set_update_subset [of "''tsc''" ?ws "allWorkerStates ?m"] by auto
    then show "worker_section p = []"
    proof
      assume "p = (''tsc'', ?ws)"
      then show ?thesis by (simp only: tsc_hidden)
    next
      assume "p \<in> set (allWorkerStates ?m)"
      then have "snd p = WORKER_BASE_STATE" by (rule paint_init_workers)
      then show ?thesis using worker_section_base [of "fst p"] by (cases p) simp
    qed
  qed
  moreover have "consoleOutput ?m' = []" "\<not> isInstalling ?m'" "\<not> isServerStarted ?m'"
    by (simp_all add: paint_init_def isServerStarted_def positive_def)
  ultimately have r: "repaint win32 ?m' = [[Plain (clear_page win32)],
           [snowpack_badge, Colors BgYellow (Colors Black (Plain '' LOADING ''))]]"
    by (simp add: repaint_def console_section_def status_bar_def install_section_def)
  have e: "emit win32 rel ?m (WORKER_MSG ''tsc'' ''Found 0 errors.'') =
             Inr (?m', repaint win32 ?m')"
    unfolding emit_def h by simp
  have l: "map_of (allWorkerStates ?m') ''tsc'' = Some ?ws"
    by (simp add: AList.update_conv')
  show ?thesis unfolding a e r l using tsc_hidden by (simp add: WORKER_BASE_STATE_def)
qed

text \<open>
  C9. The console log is append-only: each of \<open>INFO\<close>, \<open>WARN\<close> and \<open>ERROR\<close> returns with
  exactly one entry, its argument, added at the end; whatever the event, the log before it
  is a prefix of the log after it; and along any sequence of events the length of the log
  never decreases.
\<close>

theorem console_append_only:
  "handle rel m (INFO args) = Inr (m\<lparr>consoleOutput := consoleOutput m @ [args]\<rparr>)
   \<and> handle rel m (WARN args) = Inr (m\<lparr>consoleOutput := consoleOutput m @ [args]\<rparr>)
   \<and> handle rel m (ERROR args) = Inr (m\<lparr>consoleOutput := consoleOutput m @ [args]\<rparr>)
   \<and> length (consoleOutput (m\<lparr>consoleOutput := consoleOutput m @ [args]\<rparr>))
       = length (consoleOutput m) + 1
   \<and> prefix (consoleOutput m) (consoleOutput (after rel m e))
   \<and> prefix (consoleOutput m) (consoleOutput (after_all rel m es))
   \<and> length (consoleOutput m) \<le> length (consoleOutput (after_all rel m es))
   \<and> length (consoleOutput (after_all rel m es))
       \<le> length (consoleOutput (after_all rel m (es @ es')))"
proof -
  have "after_all rel m (es @ es') = after_all rel (after_all rel m es) es'"
    by (simp add: after_all_def)
  then have "prefix (consoleOutput (after_all rel m es))
               (consoleOutput (after_all rel m (es @ es')))"
    using after_all_frame [of rel "after_all rel m es" es'] by simp
  then show ?thesis
    using after_frame [of rel m e] after_all_frame [of rel m es] by (simp add: prefix_length_le)
qed

text \<open>
  C10. \<open>isInstalling\<close> starts as false and no listener assigns it or \<open>installOutput\<close>:
  after any sequence of events from the initial model the flag is false, \<open>installOutput\<close>
  is the empty string, and a repaint draws no install section.
\<close>

theorem install_never_rendered:
  "\<not> isInstalling (paint_init plugins)
   \<and> \<not> isInstalling (after_all rel (paint_init plugins) es)
   \<and> installOutput (after_all rel (paint_init plugins) es) = []
   \<and> install_section (after_all rel (paint_init plugins) es) = []
   \<and> repaint win32 (after_all rel (paint_init plugins) es) =
       [[Plain (clear_page win32)]] @ console_section (after_all rel (paint_init plugins) es)
       @ concat (map worker_section (allWorkerStates (after_all rel (paint_init plugins) es)))
       @ status_bar (after_all rel (paint_init plugins) es)"
proof -
  have "\<not> isInstalling (paint_init plugins)" "installOutput (paint_init plugins) = []"
    by (simp_all add: paint_init_def)
  then show ?thesis using after_all_frame [of rel "paint_init plugins" es]
    by (simp add: install_section_def repaint_def)
qed

end
